theory Spec2Isabelle
  imports Main
begin

section \<open>JavaScript values used by the dashboard code\<close>

text \<open>
  Strings are byte lists holding the UTF-8 encoding of the JavaScript string. A numeric
  field of a JSON reply is absent (\<open>undefined\<close> when read), \<open>null\<close>, or an integer
  count: the reply fields \<open>downloaded\<close> and \<open>total\<close> of the progress endpoint.
\<close>

datatype jsnum = Undefined | Null | Num int

text \<open>\<open>ToNumber\<close>: \<open>undefined\<close> is NaN (here \<open>None\<close>), \<open>null\<close> is 0.\<close>

fun to_number :: "jsnum \<Rightarrow> int option" where
  "to_number Undefined = None"
| "to_number Null = Some 0"
| "to_number (Num n) = Some n"

text \<open>\<open>a >= b\<close> on such values: false as soon as one side is NaN.\<close>

definition js_ge :: "jsnum \<Rightarrow> jsnum \<Rightarrow> bool" where
  "js_ge a b =
     (case to_number a of
        None \<Rightarrow> False
      | Some x \<Rightarrow> (case to_number b of None \<Rightarrow> False | Some y \<Rightarrow> y \<le> x))"

text \<open>\<open>v || 0\<close>: every falsy value (\<open>undefined\<close>, \<open>null\<close>, 0) gives 0.\<close>

fun or_zero :: "jsnum \<Rightarrow> int" where
  "or_zero (Num n) = n"
| "or_zero _ = 0"

text \<open>\<open>s || d\<close> on an optional string: absent, \<open>null\<close> and the empty string are falsy.\<close>

fun or_default :: "string option \<Rightarrow> string \<Rightarrow> string" where
  "or_default None d = d"
| "or_default (Some s) d = (if s = [] then d else s)"

text \<open>Decimal rendering of a number inside a template literal.\<close>

definition digit_char :: "nat \<Rightarrow> char" where
  "digit_char d = char_of (48 + d)"

function show_nat :: "nat \<Rightarrow> string" where
  "show_nat n = (if n < 10 then [digit_char n] else show_nat (n div 10) @ [digit_char (n mod 10)])"
  by pat_completeness auto
termination
  by (relation "measure id") auto

definition show_int :: "int \<Rightarrow> string" where
  "show_int i = (if i < 0 then CHR ''-'' # show_nat (nat (- i)) else show_nat (nat i))"

fun show_jsnum :: "jsnum \<Rightarrow> string" where
  "show_jsnum Undefined = ''undefined''"
| "show_jsnum Null = ''null''"
| "show_jsnum (Num n) = show_int n"

text \<open>\<open>String.prototype.includes\<close>: the needle occurs as a contiguous run.\<close>

fun starts_with :: "string \<Rightarrow> string \<Rightarrow> bool" where
  "starts_with s [] = True"
| "starts_with [] (c # cs) = False"
| "starts_with (x # xs) (c # cs) = (x = c \<and> starts_with xs cs)"

fun js_includes :: "string \<Rightarrow> string \<Rightarrow> bool" where
  "js_includes [] needle = (needle = [])"
| "js_includes (x # xs) needle = (starts_with (x # xs) needle \<or> js_includes xs needle)"

section \<open>The chat component's state (ChatInterface.tsx)\<close>

record dataset_plan =
  action :: string
  plan_query :: string
  classes :: "string list"
  total_items :: int
  data_type :: string

datatype role = User | Assistant

text \<open>interface Message; \<open>request_id\<close> and \<open>plan\<close> are optional.\<close>

record message =
  msg_id :: string
  msg_role :: role
  content :: string
  timestamp :: string
  plan :: "dataset_plan option"
  msg_request_id :: "string option"

text \<open>interface Chat.\<close>

record chat =
  chat_id :: string
  title :: string
  messages :: "message list"
  createdAt :: string

text \<open>interface SamplingStatus; a sample is kept by its URL.\<close>

record sampling_status =
  request_id :: string
  status :: string
  progress :: int
  total :: int
  samples :: "string list option"

text \<open>The JSON object the progress endpoint replies with, as the poller reads it.\<close>

record progress_data =
  data_status :: "string option"
  downloaded :: jsnum
  data_total :: jsnum
  data_samples :: "string list option"

section \<open>pollSamplingStatus\<close>

text \<open>A JSON document, as \<open>JSON.parse\<close> and \<open>JSON.stringify\<close> see it.\<close>

datatype json = JNull | JBool bool | JNum int | JStr string
  | JArr "json list" | JObj "(string \<times> json) list"

datatype http_method = GET | POST | DELETE

text \<open>A call of \<open>fetch\<close>: method, URL, JSON body and \<open>cache\<close> option when given.\<close>

record http_request =
  req_method :: http_method
  url :: string
  body :: "json option"
  cache :: "string option"

definition status_check :: "string \<Rightarrow> http_request" where
  "status_check u = \<lparr>req_method = GET, url = u, body = None, cache = None\<rparr>"

text \<open>
  What one \<open>fetch\<close> of the interval callback comes to: \<open>Threw\<close> when the fetch or
  \<open>res.json()\<close> rejects, \<open>NotOk\<close> for a reply with \<open>res.ok\<close> false, \<open>OkJson\<close> for a
  parsed reply.
\<close>

datatype fetch_result = Threw | NotOk | OkJson progress_data

text \<open>What the callback reads from the clock and the random generator for the message.\<close>

record env =
  now_ms :: nat
  random_suffix :: string
  iso_time :: string

text \<open>
  The state one call of \<open>pollSamplingStatus(requestId, chatId)\<close> works on: the two
  React states it updates, the interval handle (cleared or not), the timers' delays, the
  fetches issued so far and how many of them have not settled yet.
\<close>

record poll_state =
  chats :: "chat list"
  samplingStatus :: "string \<rightharpoonup> sampling_status"
  cleared :: bool
  interval_ms :: nat
  timeout_ms :: nat
  requests :: "http_request list"
  inflight :: nat

definition progress_url :: "string \<Rightarrow> string" where
  "progress_url requestId = ''/api/download-progress?request_id='' @ requestId"

text \<open>Line 333: \<open>data.status === 'completed' || data.downloaded >= data.total\<close>.\<close>

definition stop_condition :: "progress_data \<Rightarrow> bool" where
  "stop_condition d = (data_status d = Some ''completed'' \<or> js_ge (downloaded d) (data_total d))"

text \<open>The two pictographs of the completion message, as UTF-8 bytes.\<close>

definition check_mark :: string where
  "check_mark = [CHR 0xE2, CHR 0x9C, CHR 0x85]"

definition folder_mark :: string where
  "folder_mark = [CHR 0xF0, CHR 0x9F, CHR 0x93, CHR 0x82]"

definition completionMessage :: "string \<Rightarrow> progress_data \<Rightarrow> env \<Rightarrow> message" where
  "completionMessage requestId d e =
     \<lparr> msg_id = ''msg-'' @ show_nat (now_ms e) @ ''-'' @ random_suffix e,
       msg_role = Assistant,
       content = check_mark @ '' Dataset sampling completed! '' @ show_jsnum (downloaded d)
         @ '' samples ready.'' @ [CHR 0x0A, CHR 0x0A] @ folder_mark
         @ '' Go to the **Datasets** tab to review samples and start the full download when ready.'',
       timestamp = iso_time e,
       plan = None,
       msg_request_id = Some requestId \<rparr>"

text \<open>Lines 348-350: the test for a completion message already in the chat.\<close>

definition hasCompletionMsg :: "string \<Rightarrow> chat \<Rightarrow> bool" where
  "hasCompletionMsg requestId c =
     list_ex (\<lambda>m. js_includes (content m) ''Dataset sampling completed''
                 \<and> msg_request_id m = Some requestId) (messages c)"

text \<open>Lines 345-359: the updater handed to \<open>setChats\<close>.\<close>

definition addCompletion :: "string \<Rightarrow> string \<Rightarrow> message \<Rightarrow> chat list \<Rightarrow> chat list" where
  "addCompletion requestId chatId m prevChats =
     map (\<lambda>c. if chat_id c = chatId
               then (if hasCompletionMsg requestId c then c
                     else c\<lparr>messages := messages c @ [m]\<rparr>)
               else c) prevChats"

text \<open>Lines 321-330: the updater handed to \<open>setSamplingStatus\<close>.\<close>

definition setStatus :: "string \<Rightarrow> progress_data \<Rightarrow> (string \<rightharpoonup> sampling_status)
    \<Rightarrow> (string \<rightharpoonup> sampling_status)" where
  "setStatus requestId d prev =
     prev(requestId \<mapsto>
       \<lparr> request_id = requestId,
         status = or_default (data_status d) ''running'',
         progress = or_zero (downloaded d),
         total = or_zero (data_total d),
         samples = data_samples d \<rparr>)"

text \<open>
  The rest of the interval callback once its fetch has settled (lines 318-365): a reply
  that is not ok changes nothing, a parsed reply is stored and, under the stop condition,
  clears the interval and adds the completion message; an exception clears the interval.
\<close>

definition on_settle :: "string \<Rightarrow> string \<Rightarrow> fetch_result \<Rightarrow> env \<Rightarrow> poll_state \<Rightarrow> poll_state" where
  "on_settle requestId chatId r e st =
     (case r of
        Threw \<Rightarrow> st\<lparr>cleared := True\<rparr>
      | NotOk \<Rightarrow> st
      | OkJson d \<Rightarrow>
          (let st1 = st\<lparr>samplingStatus := setStatus requestId d (samplingStatus st)\<rparr>
           in if stop_condition d
              then st1\<lparr>cleared := True,
                       chats := addCompletion requestId chatId (completionMessage requestId d e) (chats st1)\<rparr>
              else st1))"

text \<open>
  The events of a poller's life: the interval timer fires (the callback starts and
  issues its fetch), a fetch issued earlier settles (the callback resumes), the
  five-minute timer fires. A cleared interval never runs its callback again; fetches
  already under way still settle.
\<close>

datatype event = IntervalFires | FetchSettles fetch_result env | TimeoutFires

definition step :: "string \<Rightarrow> string \<Rightarrow> poll_state \<Rightarrow> event \<Rightarrow> poll_state" where
  "step requestId chatId st ev =
     (case ev of
        IntervalFires \<Rightarrow>
          (if cleared st then st
           else st\<lparr>requests := requests st @ [status_check (progress_url requestId)],
                   inflight := Suc (inflight st)\<rparr>)
      | FetchSettles r e \<Rightarrow>
          (if inflight st = 0 then st
           else on_settle requestId chatId r e (st\<lparr>inflight := inflight st - 1\<rparr>))
      | TimeoutFires \<Rightarrow> st\<lparr>cleared := True\<rparr>)"

fun run :: "string \<Rightarrow> string \<Rightarrow> poll_state \<Rightarrow> event list \<Rightarrow> poll_state" where
  "run requestId chatId st [] = st"
| "run requestId chatId st (ev # evs) = run requestId chatId (step requestId chatId st ev) evs"

text \<open>
  Lines 314-370: the call itself registers the interval (2000) and the timeout (300000)
  and returns; nothing is fetched before the first firing.
\<close>

definition pollSamplingStatus :: "chat list \<Rightarrow> (string \<rightharpoonup> sampling_status) \<Rightarrow> poll_state" where
  "pollSamplingStatus cs ss =
     \<lparr> chats = cs, samplingStatus = ss, cleared = False,
       interval_ms = 2000, timeout_ms = 300000, requests = [], inflight = 0 \<rparr>"

section \<open>The download-progress route (GET handler)\<close>

text \<open>
  A reply of the backend to a \<open>fetch\<close> of a route handler: the fetch rejects (with the
  error's message), or it resolves with a status code and a body that \<open>res.json()\<close>
  parses (\<open>Inr\<close>) or rejects (\<open>Inl\<close>, with the error's message).
\<close>

datatype backend_reply = FetchFailed string | Replied nat "string + json"

text \<open>\<open>res.ok\<close>: the status is in the range 200-299.\<close>

definition res_ok :: "nat \<Rightarrow> bool" where
  "res_ok code = (200 \<le> code \<and> code \<le> 299)"

text \<open>What \<open>NextResponse.json(payload, {status})\<close> builds.\<close>

record http_response =
  status_code :: nat
  payload :: json

text \<open>
  \<open>NextResponse.json\<close> builds the response through the \<open>Response\<close> constructor, which
  throws for a status outside 200-599 and for a body on a null-body status.
\<close>

definition response_init_ok :: "nat \<Rightarrow> bool" where
  "response_init_ok code =
     (200 \<le> code \<and> code \<le> 599 \<and> code \<noteq> 204 \<and> code \<noteq> 205 \<and> code \<noteq> 304)"

text \<open>\<open>searchParams.get(name)\<close>: the first value given for the name, or \<open>null\<close>.\<close>

definition searchParams_get :: "(string \<times> string) list \<Rightarrow> string \<Rightarrow> string option" where
  "searchParams_get params name = map_of params name"

definition backend_progress_request :: "string \<Rightarrow> http_request" where
  "backend_progress_request requestId =
     \<lparr> req_method = GET,
       url = ''http://localhost:8000/api/download-progress?request_id='' @ requestId,
       body = None, cache = Some ''no-store'' \<rparr>"

definition connect_failure :: http_response where
  "connect_failure =
     \<lparr>status_code = 500, payload = JObj [(''error'', JStr ''Failed to connect to backend'')]\<rparr>"

text \<open>
  The handler, given the parsed query of the request URL and the backend's behaviour;
  it returns its response and the fetches it made. Every exception inside the \<open>try\<close>
  ends in the 500 reply of the \<open>catch\<close>.
\<close>

definition GET_download_progress ::
    "(string \<times> string) list \<Rightarrow> (http_request \<Rightarrow> backend_reply) \<Rightarrow> http_response \<times> http_request list" where
  "GET_download_progress params backend =
     (case searchParams_get params ''request_id'' of
        None \<Rightarrow>
          (\<lparr>status_code = 400, payload = JObj [(''error'', JStr ''request_id parameter is required'')]\<rparr>, [])
      | Some requestId \<Rightarrow>
          if requestId = [] then
            (\<lparr>status_code = 400, payload = JObj [(''error'', JStr ''request_id parameter is required'')]\<rparr>, [])
          else
            (let req = backend_progress_request requestId in
             case backend req of
               FetchFailed msg \<Rightarrow> (connect_failure, [req])
             | Replied code parsed \<Rightarrow>
                 if \<not> res_ok code then
                   (if response_init_ok code
                    then (\<lparr>status_code = code,
                           payload = JObj [(''error'', JStr ''Failed to fetch download progress'')]\<rparr>, [req])
                    else (connect_failure, [req]))
                 else (case parsed of
                         Inl msg \<Rightarrow> (connect_failure, [req])
                       | Inr data \<Rightarrow> (\<lparr>status_code = 200, payload = data\<rparr>, [req]))))"

section \<open>The start-full-run route (POST handler)\<close>

text \<open>A property read \<open>data.name\<close> of a parsed JSON value: reading from \<open>null\<close> throws.\<close>

fun last_of :: "(string \<times> json) list \<Rightarrow> string \<Rightarrow> json option" where
  "last_of [] name = None"
| "last_of ((k, v) # kvs) name =
     (case last_of kvs name of
        Some w \<Rightarrow> Some w
      | None \<Rightarrow> if k = name then Some v else None)"

fun js_prop :: "json \<Rightarrow> string \<Rightarrow> (json option) option" where
  "js_prop JNull name = None"
| "js_prop (JObj kvs) name = Some (last_of kvs name)"
| "js_prop v name = Some None"

fun truthy :: "json \<Rightarrow> bool" where
  "truthy JNull = False"
| "truthy (JBool b) = b"
| "truthy (JNum n) = (n \<noteq> 0)"
| "truthy (JStr s) = (s \<noteq> [])"
| "truthy (JArr xs) = True"
| "truthy (JObj kvs) = True"

text \<open>\<open>data.detail || 'FastAPI error'\<close>, for a \<open>data\<close> that is not \<open>null\<close>.\<close>

definition detail_or :: "json option \<Rightarrow> string \<Rightarrow> json" where
  "detail_or v d = (case v of None \<Rightarrow> JStr d | Some w \<Rightarrow> if truthy w then w else JStr d)"

definition failure_reply :: "string \<Rightarrow> http_response" where
  "failure_reply msg = \<lparr>status_code = 500, payload = JObj [(''detail'', JStr msg)]\<rparr>"

text \<open>
  The handler, given what \<open>request.json()\<close> comes to, the environment variable
  \<open>FASTAPI_URL\<close>, the messages of the exceptions the engine raises itself (reading a
  property of \<open>null\<close>, an invalid response status) and the backend's behaviour.
\<close>

record engine_messages =
  null_property_message :: string
  invalid_status_message :: string

definition POST_start_full_run ::
    "engine_messages \<Rightarrow> string option \<Rightarrow> string + json \<Rightarrow> (http_request \<Rightarrow> backend_reply)
      \<Rightarrow> http_response \<times> http_request list" where
  "POST_start_full_run eng fastapi_url parsed_body backend =
     (case parsed_body of
        Inl msg \<Rightarrow> (failure_reply msg, [])
      | Inr b \<Rightarrow>
          (let req = \<lparr> req_method = POST,
                       url = or_default fastapi_url ''http://localhost:8000'' @ ''/api/start-full-run'',
                       body = Some b, cache = None \<rparr> in
           case backend req of
             FetchFailed msg \<Rightarrow> (failure_reply msg, [req])
           | Replied code parsed \<Rightarrow>
               (case parsed of
                  Inl msg \<Rightarrow> (failure_reply msg, [req])
                | Inr data \<Rightarrow>
                    if \<not> res_ok code then
                      (case js_prop data ''detail'' of
                         None \<Rightarrow> (failure_reply (null_property_message eng), [req])
                       | Some v \<Rightarrow>
                           if response_init_ok code
                           then (\<lparr>status_code = code,
                                  payload = JObj [(''detail'', detail_or v ''FastAPI error'')]\<rparr>, [req])
                           else (failure_reply (invalid_status_message eng), [req]))
                    else (\<lparr>status_code = 200, payload = data\<rparr>, [req]))))"

section \<open>The build form (BuildForm, planAndSample)\<close>












section \<open>The Job Store and the Request Coordinator (backend)\<close>
























section \<open>Properties of the poller\<close>

lemma step_cleared_mono: "cleared st \<Longrightarrow> cleared (step requestId chatId st ev)"
  by (cases ev) (auto simp: step_def on_settle_def Let_def split: fetch_result.splits)

lemma on_settle_requests: "requests (on_settle requestId chatId r e st) = requests st"
  by (cases r) (simp_all add: on_settle_def Let_def)

lemma step_cleared_requests:
  "cleared st \<Longrightarrow> requests (step requestId chatId st ev) = requests st"
  by (cases ev) (simp_all add: step_def on_settle_requests)

lemma run_cleared_requests:
  "cleared st \<Longrightarrow> requests (run requestId chatId st evs) = requests st"
proof (induction evs arbitrary: st)
  case Nil
  then show ?case by simp
next
  case (Cons ev evs)
  have "cleared (step requestId chatId st ev)"
    using Cons.prems by (rule step_cleared_mono)
  then have "requests (run requestId chatId (step requestId chatId st ev) evs)
      = requests (step requestId chatId st ev)"
    by (rule Cons.IH)
  then show ?case
    using Cons.prems by (simp add: step_cleared_requests)
qed

text \<open>
  C6: the poller waits 2000 ms between status checks, and gives up after 300000 ms,
  which is exactly 150 times the interval.
\<close>

theorem poll_default_timing:
  "interval_ms (pollSamplingStatus cs ss) = 2000
   \<and> timeout_ms (pollSamplingStatus cs ss) = 300000
   \<and> timeout_ms (pollSamplingStatus cs ss) = 150 * interval_ms (pollSamplingStatus cs ss)"
  by (simp add: pollSamplingStatus_def)

theorem poll_default_timing_witness:
  "interval_ms (pollSamplingStatus [] Map.empty) = 2000
   \<and> timeout_ms (pollSamplingStatus [] Map.empty) = 150 * 2000"
  using poll_default_timing[of "[]" Map.empty] by simp

lemma starts_with_append: "starts_with (n @ s) n"
  by (induction n) auto

lemma js_includes_append: "js_includes (p @ n @ s) n"
proof (induction p)
  case Nil
  show ?case using starts_with_append[of n s] by (cases "n @ s") auto
next
  case (Cons a p)
  then show ?case by simp
qed

lemma completion_has_marker:
  "js_includes (content (completionMessage requestId d e)) ''Dataset sampling completed''"
proof -
  have "content (completionMessage requestId d e)
      = (check_mark @ '' '') @ ''Dataset sampling completed'' @ (''! '' @ show_jsnum (downloaded d)
         @ '' samples ready.'' @ [CHR 0x0A, CHR 0x0A] @ folder_mark
         @ '' Go to the **Datasets** tab to review samples and start the full download when ready.'')"
    by (simp add: completionMessage_def)
  then show ?thesis
    by (simp only: js_includes_append)
qed

lemma has_after_add:
  "hasCompletionMsg requestId
     (if hasCompletionMsg requestId c then c
      else c\<lparr>messages := messages c @ [completionMessage requestId d e]\<rparr>)"
proof (cases "hasCompletionMsg requestId c")
  case True
  then show ?thesis by simp
next
  case False
  have "msg_request_id (completionMessage requestId d e) = Some requestId"
    by (simp add: completionMessage_def)
  then have "hasCompletionMsg requestId
      (c\<lparr>messages := messages c @ [completionMessage requestId d e]\<rparr>)"
    using completion_has_marker[of requestId d e]
    by (simp add: hasCompletionMsg_def)
  with False show ?thesis by simp
qed

lemma addCompletion_idem:
  "addCompletion requestId chatId m2
     (addCompletion requestId chatId (completionMessage requestId d e) cs)
   = addCompletion requestId chatId (completionMessage requestId d e) cs"
proof (induction cs)
  case Nil
  show ?case by (simp add: addCompletion_def)
next
  case (Cons c cs)
  then show ?case
    using has_after_add[of requestId c d e]
    by (auto simp: addCompletion_def)
qed

lemma step_requests_subset:
  "set (requests st) \<subseteq> {status_check (progress_url requestId)}
   \<Longrightarrow> set (requests (step requestId chatId st ev)) \<subseteq> {status_check (progress_url requestId)}"
  by (cases ev) (auto simp: step_def on_settle_requests)

lemma run_requests_subset:
  "set (requests st) \<subseteq> {status_check (progress_url requestId)}
   \<Longrightarrow> set (requests (run requestId chatId st evs)) \<subseteq> {status_check (progress_url requestId)}"
proof (induction evs arbitrary: st)
  case Nil
  then show ?case by simp
next
  case (Cons ev evs)
  from Cons.prems
  have "set (requests (step requestId chatId st ev)) \<subseteq> {status_check (progress_url requestId)}"
    by (rule step_requests_subset)
  then show ?case using Cons.IH by simp
qed

lemma GET_only_reads:
  "list_all (\<lambda>q. req_method q = GET \<and> body q = None) (snd (GET_download_progress params backend))"
  by (auto simp: GET_download_progress_def backend_progress_request_def Let_def
      split: option.splits backend_reply.splits sum.splits)




text \<open>
  C3, as the code has it: when the five-minute timer fires the interval is cleared and
  no status check is issued any more, whatever happens afterwards; the timer's callback
  reports nothing: the chats and the sampling statuses are left as they were.
\<close>

theorem poll_timeout_silent:
  "cleared (step requestId chatId st TimeoutFires)
   \<and> chats (step requestId chatId st TimeoutFires) = chats st
   \<and> samplingStatus (step requestId chatId st TimeoutFires) = samplingStatus st
   \<and> requests (run requestId chatId (step requestId chatId st TimeoutFires) evs) = requests st"
proof -
  have "cleared (step requestId chatId st TimeoutFires)"
    by (simp add: step_def)
  then have "requests (run requestId chatId (step requestId chatId st TimeoutFires) evs)
      = requests (step requestId chatId st TimeoutFires)"
    by (rule run_cleared_requests)
  then show ?thesis by (simp add: step_def)
qed

theorem poll_timeout_silent_witness:
  "cleared (step ''r1'' ''c1'' (pollSamplingStatus [] Map.empty) TimeoutFires)
   \<and> requests (run ''r1'' ''c1'' (step ''r1'' ''c1'' (pollSamplingStatus [] Map.empty) TimeoutFires)
        [IntervalFires, IntervalFires]) = []"
  using poll_timeout_silent[of "''r1''" "''c1''" "pollSamplingStatus [] Map.empty"
      "[IntervalFires, IntervalFires]"]
  by (simp add: pollSamplingStatus_def)

theorem poll_timeout_counterexample:
  "chats (run ''r1'' ''c1''
       (pollSamplingStatus [\<lparr>chat_id = ''c1'', title = ''New Chat'', messages = [], createdAt = ''t''\<rparr>] Map.empty)
       [IntervalFires,
        FetchSettles (OkJson \<lparr>data_status = Some ''running'', downloaded = Num 3,
                                data_total = Num 10, data_samples = None\<rparr>)
          \<lparr>now_ms = 17, random_suffix = ''k3j9x0q1z'', iso_time = ''t''\<rparr>,
        TimeoutFires])
     = [\<lparr>chat_id = ''c1'', title = ''New Chat'', messages = [], createdAt = ''t''\<rparr>]
   \<and> samplingStatus (run ''r1'' ''c1''
       (pollSamplingStatus [\<lparr>chat_id = ''c1'', title = ''New Chat'', messages = [], createdAt = ''t''\<rparr>] Map.empty)
       [IntervalFires,
        FetchSettles (OkJson \<lparr>data_status = Some ''running'', downloaded = Num 3,
                                data_total = Num 10, data_samples = None\<rparr>)
          \<lparr>now_ms = 17, random_suffix = ''k3j9x0q1z'', iso_time = ''t''\<rparr>,
        TimeoutFires]) ''r1''
     = Some \<lparr>request_id = ''r1'', status = ''running'', progress = 3, total = 10, samples = None\<rparr>
   \<and> samplingStatus (run ''r1'' ''c1''
       (pollSamplingStatus [\<lparr>chat_id = ''c1'', title = ''New Chat'', messages = [], createdAt = ''t''\<rparr>] Map.empty)
       [IntervalFires,
        FetchSettles (OkJson \<lparr>data_status = Some ''running'', downloaded = Num 3,
                                data_total = Num 10, data_samples = None\<rparr>)
          \<lparr>now_ms = 17, random_suffix = ''k3j9x0q1z'', iso_time = ''t''\<rparr>]) ''r1''
     = Some \<lparr>request_id = ''r1'', status = ''running'', progress = 3, total = 10, samples = None\<rparr>"
  by (simp add: step_def on_settle_def pollSamplingStatus_def stop_condition_def js_ge_def
      setStatus_def addCompletion_def Let_def)

text \<open>
  C5: once a reply under the stop condition has been handled for a request and a chat,
  handling any further reply for the same request and chat leaves the chats as they
  are: no second completion message is added.
\<close>

theorem completion_not_duplicated:
  assumes "stop_condition d1"
  shows "chats (on_settle requestId chatId (OkJson d2) e2
            (on_settle requestId chatId (OkJson d1) e1 st))
         = chats (on_settle requestId chatId (OkJson d1) e1 st)"
  using assms by (simp add: on_settle_def Let_def addCompletion_idem)

theorem completion_not_duplicated_witness:
  "stop_condition \<lparr>data_status = Some ''completed'', downloaded = Num 10,
                     data_total = Num 10, data_samples = None\<rparr>
   \<and> chats (on_settle ''r1'' ''c1''
        (OkJson \<lparr>data_status = Some ''completed'', downloaded = Num 10,
                  data_total = Num 10, data_samples = None\<rparr>)
        \<lparr>now_ms = 19, random_suffix = ''a'', iso_time = ''t2''\<rparr>
        (on_settle ''r1'' ''c1''
          (OkJson \<lparr>data_status = Some ''completed'', downloaded = Num 10,
                    data_total = Num 10, data_samples = None\<rparr>)
          \<lparr>now_ms = 17, random_suffix = ''b'', iso_time = ''t1''\<rparr>
          (pollSamplingStatus [\<lparr>chat_id = ''c1'', title = ''New Chat'', messages = [], createdAt = ''t''\<rparr>] Map.empty)))
     = chats (on_settle ''r1'' ''c1''
          (OkJson \<lparr>data_status = Some ''completed'', downloaded = Num 10,
                    data_total = Num 10, data_samples = None\<rparr>)
          \<lparr>now_ms = 17, random_suffix = ''b'', iso_time = ''t1''\<rparr>
          (pollSamplingStatus [\<lparr>chat_id = ''c1'', title = ''New Chat'', messages = [], createdAt = ''t''\<rparr>] Map.empty))"
proof -
  have h: "stop_condition \<lparr>data_status = Some ''completed'', downloaded = Num 10,
                     data_total = Num 10, data_samples = None\<rparr>"
    by (simp add: stop_condition_def)
  from completion_not_duplicated[OF h] h show ?thesis by blast
qed

text \<open>
  C7: every request a poller issues is a GET of the progress URL of its request id,
  without a body; clearing the interval (the timeout) and resuming after a fetch issue
  no request at all; and the route handler behind that URL in turn makes nothing but GET
  requests without a body.
\<close>

theorem poll_only_reads:
  "set (requests (run requestId chatId (pollSamplingStatus cs ss) evs))
     \<subseteq> {status_check (progress_url requestId)}
   \<and> req_method (status_check (progress_url requestId)) = GET
   \<and> body (status_check (progress_url requestId)) = None
   \<and> requests (step requestId chatId st TimeoutFires) = requests st
   \<and> requests (step requestId chatId st (FetchSettles r e)) = requests st
   \<and> list_all (\<lambda>q. req_method q = GET \<and> body q = None) (snd (GET_download_progress params backend))"
proof -
  have "set (requests (pollSamplingStatus cs ss)) \<subseteq> {status_check (progress_url requestId)}"
    by (simp add: pollSamplingStatus_def)
  then have "set (requests (run requestId chatId (pollSamplingStatus cs ss) evs))
     \<subseteq> {status_check (progress_url requestId)}"
    by (rule run_requests_subset)
  moreover have "requests (step requestId chatId st (FetchSettles r e)) = requests st"
    by (simp add: step_def on_settle_requests)
  moreover have "requests (step requestId chatId st TimeoutFires) = requests st"
    by (simp add: step_def)
  ultimately show ?thesis
    using GET_only_reads[of params backend] by (simp add: status_check_def)
qed

theorem poll_only_reads_witness:
  "requests (run ''r1'' ''c1'' (pollSamplingStatus [] Map.empty)
      [IntervalFires, FetchSettles NotOk \<lparr>now_ms = 17, random_suffix = ''a'', iso_time = ''t''\<rparr>,
       IntervalFires, TimeoutFires, IntervalFires])
    = [\<lparr>req_method = GET, url = ''/api/download-progress?request_id=r1'', body = None, cache = None\<rparr>,
       \<lparr>req_method = GET, url = ''/api/download-progress?request_id=r1'', body = None, cache = None\<rparr>]
   \<and> set (requests (run ''r1'' ''c1'' (pollSamplingStatus [] Map.empty)
      [IntervalFires, FetchSettles NotOk \<lparr>now_ms = 17, random_suffix = ''a'', iso_time = ''t''\<rparr>,
       IntervalFires, TimeoutFires, IntervalFires]))
     \<subseteq> {status_check (progress_url ''r1'')}"
  using poll_only_reads[of "''r1''" "''c1''" "[]" Map.empty
      "[IntervalFires, FetchSettles NotOk \<lparr>now_ms = 17, random_suffix = ''a'', iso_time = ''t''\<rparr>,
       IntervalFires, TimeoutFires, IntervalFires]"]
  by (simp add: step_def on_settle_def pollSamplingStatus_def status_check_def progress_url_def)

text \<open>
  C10: when a fetch of the poller throws, the interval is cleared, no status check is
  issued for the request any more whatever happens afterwards, and nothing is reported:
  the chats and the sampling statuses are left as they were.
\<close>

theorem poll_fetch_throw_stops:
  assumes "0 < inflight st"
  shows "cleared (step requestId chatId st (FetchSettles Threw e))
         \<and> requests (run requestId chatId (step requestId chatId st (FetchSettles Threw e)) evs)
             = requests st
         \<and> chats (step requestId chatId st (FetchSettles Threw e)) = chats st
         \<and> samplingStatus (step requestId chatId st (FetchSettles Threw e)) = samplingStatus st"
proof -
  have c: "cleared (step requestId chatId st (FetchSettles Threw e))"
    using assms by (simp add: step_def on_settle_def)
  then have "requests (run requestId chatId (step requestId chatId st (FetchSettles Threw e)) evs)
      = requests (step requestId chatId st (FetchSettles Threw e))"
    by (rule run_cleared_requests)
  with c show ?thesis
    using assms by (simp add: step_def on_settle_def)
qed

theorem poll_fetch_throw_stops_witness:
  "0 < inflight (step ''r1'' ''c1'' (pollSamplingStatus [] Map.empty) IntervalFires)
   \<and> length (requests (run ''r1'' ''c1''
        (step ''r1'' ''c1'' (step ''r1'' ''c1'' (pollSamplingStatus [] Map.empty) IntervalFires)
           (FetchSettles Threw \<lparr>now_ms = 17, random_suffix = ''a'', iso_time = ''t''\<rparr>))
        [IntervalFires, IntervalFires, TimeoutFires])) = 1"
proof -
  have h: "0 < inflight (step ''r1'' ''c1'' (pollSamplingStatus [] Map.empty) IntervalFires)"
    by (simp add: step_def pollSamplingStatus_def)
  from poll_fetch_throw_stops[OF h, of "''r1''" "''c1''"
      "\<lparr>now_ms = 17, random_suffix = ''a'', iso_time = ''t''\<rparr>"
      "[IntervalFires, IntervalFires, TimeoutFires]"]
  show ?thesis using h by (simp add: step_def on_settle_def pollSamplingStatus_def)
qed

section \<open>Auxiliary facts on trimming and on the start-full-run route\<close>



lemma start_full_run_forwards:
  "snd (POST_start_full_run eng u (Inr b) backend)
   = [\<lparr> req_method = POST, url = or_default u ''http://localhost:8000'' @ ''/api/start-full-run'',
        body = Some b, cache = None \<rparr>]"
  by (auto simp: POST_start_full_run_def Let_def split: backend_reply.splits sum.splits option.splits)

lemma start_full_run_relays_failure:
  "\<not> res_ok code \<Longrightarrow>
   status_code (fst (POST_start_full_run eng u (Inr b) (\<lambda>q. Replied code parsed))) \<noteq> 200"
  by (auto simp: POST_start_full_run_def Let_def failure_reply_def res_ok_def response_init_ok_def
      split: sum.splits option.splits)

section \<open>Properties of the Job Store\<close>

















section \<open>The Request Coordinator: full download\<close>



section \<open>The build form and the progress route: validation\<close>




text \<open>
  C9: a GET of the download-progress route whose URL carries no \<open>request_id\<close> parameter
  is answered with status 400 and an error payload, and no request is made to the
  backend.
\<close>

theorem progress_route_requires_request_id:
  assumes "searchParams_get params ''request_id'' = None"
  shows "GET_download_progress params backend
         = (\<lparr>status_code = 400,
              payload = JObj [(''error'', JStr ''request_id parameter is required'')]\<rparr>, [])"
  using assms by (simp add: GET_download_progress_def)

theorem progress_route_requires_request_id_witness:
  "searchParams_get [(''verbose'', ''1'')] ''request_id'' = None
   \<and> status_code (fst (GET_download_progress [(''verbose'', ''1'')]
        (\<lambda>q. Replied 200 (Inr (JObj [(''status'', JStr ''running'')]))))) = 400
   \<and> snd (GET_download_progress [(''verbose'', ''1'')]
        (\<lambda>q. Replied 200 (Inr (JObj [(''status'', JStr ''running'')])))) = []"
proof -
  have h: "searchParams_get [(''verbose'', ''1'')] ''request_id'' = None"
    by (simp add: searchParams_get_def)
  from progress_route_requires_request_id[OF h] h show ?thesis by simp
qed

end
